theory Spec2Isabelle
  imports Complex_Main
begin

section \<open>Values shared by the endpoints of app/backend.py\<close>

text \<open>
  A Python exception is kept as the text \<open>str(e)\<close> gives; an \<open>HTTPException\<close> as its
  status code and detail. Floats are read as exact reals: rounding error of the machine
  format is outside this development, and so is the builtin \<open>round(x, 2)\<close>, which works on
  the machine format: where the handlers call it, it is a parameter \<open>round2\<close> of the model.
\<close>

datatype py_exception = PyException string

fun str_exn :: "py_exception \<Rightarrow> string" where
  "str_exn (PyException msg) = msg"

datatype http_error = HTTPException nat string

text \<open>\<open>class PredictionRequest(BaseModel)\<close>: the five parsed fields of the body.\<close>

record prediction_request =
  advertising_spend :: real
  promotions :: int
  day_of_week :: int
  month :: int
  is_weekend :: int

text \<open>
  \<open>class PredictionResponse(BaseModel)\<close>. The field \<open>model_version\<close> of the response is
  \<open>served_version\<close> here, since \<open>model_version\<close> names the global below.
\<close>

record prediction_response =
  prediction :: real
  served_version :: string
  confidence :: real
  timestamp :: string

text \<open>
  The loaded model is an opaque object with a \<open>predict\<close> method:
  \<open>model.predict(input_data)[0]\<close> either raises or gives a number.
\<close>

type_synonym artifact = "prediction_request \<Rightarrow> py_exception + real"

text \<open>
  The dict \<open>model_metadata\<close>. It is only ever assigned as a whole, to \<open>{}\<close>, to
  \<open>{"source": "local_file"}\<close> or to the five keys of a registry version, so a key that
  is absent is \<open>None\<close>. Registry versions are the ordinals 1, 2, 3, ... that MLflow hands
  out (as decimal text); the ordinal itself is kept.
\<close>

record metadata =
  md_version :: "nat option"
  md_run_id :: "string option"
  md_stage :: "string option"
  md_created_at :: "int option"
  md_source :: "string option"

definition empty_metadata :: metadata where
  "empty_metadata =
     \<lparr>md_version = None, md_run_id = None, md_stage = None, md_created_at = None,
      md_source = None\<rparr>"

text \<open>The three module globals: \<open>model\<close>, \<open>model_version\<close>, \<open>model_metadata\<close>.\<close>

record globals =
  model :: "artifact option"
  model_version :: "string option"
  model_metadata :: metadata

definition initial_globals :: globals where
  "initial_globals =
     \<lparr>model = None, model_version = None, model_metadata = empty_metadata\<rparr>"

section \<open>POST /predict\<close>

text \<open>
  The \<open>Field(..., ge=, le=)\<close> bounds of \<open>PredictionRequest\<close>. The framework checks them
  when it builds the request object, before the handler body runs.
\<close>

definition field_constraints :: "prediction_request \<Rightarrow> bool" where
  "field_constraints r \<longleftrightarrow>
     0 \<le> advertising_spend r \<and> advertising_spend r \<le> 10000 \<and>
     0 \<le> promotions r \<and> promotions r \<le> 1 \<and>
     0 \<le> day_of_week r \<and> day_of_week r \<le> 6 \<and>
     1 \<le> month r \<and> month r \<le> 12 \<and>
     0 \<le> is_weekend r \<and> is_weekend r \<le> 1"

text \<open>\<open>confidence = 0.85 if 80 < prediction < 200 else 0.70\<close>\<close>

definition confidence_of :: "real \<Rightarrow> real" where
  "confidence_of p = (if 80 < p \<and> p < 200 then 0.85 else 0.70)"

text \<open>
  The handler body. The second component of the result lists the inputs handed to
  \<open>model.predict\<close> during the call, \<open>now\<close> is \<open>datetime.now().isoformat()\<close>. Building a
  \<open>PredictionResponse\<close> whose \<open>model_version\<close> is \<open>None\<close> fails validation inside the
  \<open>try\<close>, so it ends in the 500 branch as well (the detail then holds the text of the
  validation error, shortened here).
\<close>

definition predict ::
  "string \<Rightarrow> globals \<Rightarrow> prediction_request \<Rightarrow>
     (http_error + prediction_response) \<times> prediction_request list" where
  "predict now g request =
     (case model g of
        None \<Rightarrow> (Inl (HTTPException 503 ''Model not loaded. Please contact support.''), [])
      | Some m \<Rightarrow>
          (case m request of
             Inl e \<Rightarrow>
               (Inl (HTTPException 500 (''Prediction failed: '' @ str_exn e)), [request])
           | Inr p \<Rightarrow>
               (case model_version g of
                  None \<Rightarrow>
                    (Inl (HTTPException 500 ''Prediction failed: model_version: none is not an allowed value''),
                     [request])
                | Some v \<Rightarrow>
                    (Inr \<lparr>prediction = p, served_version = v,
                          confidence = confidence_of p, timestamp = now\<rparr>,
                     [request]))))"

text \<open>The route: request validation by the framework (422), then the handler.\<close>

definition post_predict ::
  "string \<Rightarrow> globals \<Rightarrow> prediction_request \<Rightarrow>
     (http_error + prediction_response) \<times> prediction_request list" where
  "post_predict now g request =
     (if field_constraints request then predict now g request
      else (Inl (HTTPException 422 ''Unprocessable Entity''), []))"

text \<open>\<open>GET /health\<close>: 503 without a model, else the served version.\<close>

definition health_check :: "globals \<Rightarrow> http_error + string" where
  "health_check g =
     (case model g of
        None \<Rightarrow> Inl (HTTPException 503 ''Service unavailable: Model not loaded'')
      | Some m \<Rightarrow>
          (case model_version g of
             None \<Rightarrow> Inl (HTTPException 500 ''Internal Server Error'')
           | Some v \<Rightarrow> Inr v))"

section \<open>The registry as the service sees it\<close>

text \<open>
  \<open>str(n)\<close> of a version ordinal, as in \<open>f"v{latest.version}"\<close> and
  \<open>str(latest_version.version) != str(current_version)\<close>.
\<close>

fun str_nat :: "nat \<Rightarrow> string" where
  "str_nat n =
     (if n < 10 then [''0123456789'' ! n]
      else str_nat (n div 10) @ [''0123456789'' ! (n mod 10)])"

declare str_nat.simps [simp del]

text \<open>\<open>str(model_metadata.get("version"))\<close>: the key may be absent.\<close>

definition str_version :: "nat option \<Rightarrow> string" where
  "str_version v = (case v of None \<Rightarrow> ''None'' | Some n \<Rightarrow> str_nat n)"

text \<open>An MLflow \<open>ModelVersion\<close> entity, with the attributes the service reads.\<close>

record registry_version =
  version :: nat
  run_id :: string
  current_stage :: string
  creation_timestamp :: int

text \<open>The path \<open>../models/trained/model.pkl\<close>: missing, unreadable by joblib, or a model.\<close>

datatype local_file = NoFile | Unreadable py_exception | Pickled artifact

text \<open>
  What one run of the loader or of a poll tick finds around it: the three environment
  variables, the answer of \<open>mlflow.pyfunc.load_model("models:/sales-forecaster/Production")\<close>,
  the answer of \<open>MlflowClient().get_latest_versions("sales-forecaster", stages=["Production"])\<close>
  and the local file.
\<close>

record mlflow_env =
  mlflow_tracking_uri :: "string option"
  mlflow_tracking_username :: "string option"
  mlflow_tracking_password :: "string option"
  pyfunc_load_model :: "py_exception + artifact"
  get_latest_versions :: "py_exception + registry_version list"
  local_model_file :: local_file

text \<open>Truth value of \<open>os.getenv(...)\<close>: neither \<open>None\<close> nor the empty string.\<close>

definition truthy :: "string option \<Rightarrow> bool" where
  "truthy s = (case s of None \<Rightarrow> False | Some x \<Rightarrow> x \<noteq> [])"

text \<open>\<open>not mlflow_uri or not mlflow_uri.startswith("http")\<close>\<close>

definition not_registry_uri :: "string option \<Rightarrow> bool" where
  "not_registry_uri s = (case s of None \<Rightarrow> True | Some x \<Rightarrow> x = [] \<or> take 4 x \<noteq> ''http'')"

text \<open>The dict built from a registry version, at startup and at a swap.\<close>

definition registry_metadata :: "registry_version \<Rightarrow> metadata" where
  "registry_metadata latest =
     \<lparr>md_version = Some (version latest), md_run_id = Some (run_id latest),
      md_stage = Some (current_stage latest),
      md_created_at = Some (creation_timestamp latest),
      md_source = Some ''DagsHub MLflow Registry''\<rparr>"

section \<open>The background reload loop\<close>

datatype tick_outcome =
    Skipped
  | NoChange
  | Reloaded
  | ReloadFailed py_exception
  | CheckFailed py_exception

text \<open>
  One pass of the body of \<open>while AUTO_RELOAD_ENABLED\<close> in \<open>check_for_new_model\<close>, after
  the sleep. \<open>Skipped\<close> is a \<open>continue\<close>; \<open>ReloadFailed\<close> is the inner \<open>except\<close>,
  \<open>CheckFailed\<close> the outer one, both only logged.
\<close>

definition check_for_new_model_tick :: "mlflow_env \<Rightarrow> globals \<Rightarrow> tick_outcome \<times> globals" where
  "check_for_new_model_tick env g =
     (if not_registry_uri (mlflow_tracking_uri env) then (Skipped, g)
      else if md_version (model_metadata g) = None then (Skipped, g)
      else
        (case get_latest_versions env of
           Inl e \<Rightarrow> (CheckFailed e, g)
         | Inr [] \<Rightarrow> (Skipped, g)
         | Inr (latest_version # rest) \<Rightarrow>
             (let current_version = md_version (model_metadata g) in
              if str_nat (version latest_version) \<noteq> str_version current_version then
                (case pyfunc_load_model env of
                   Inl e \<Rightarrow> (ReloadFailed e, g)
                 | Inr new_model \<Rightarrow>
                     (Reloaded,
                      \<lparr>model = Some new_model,
                       model_version = Some (''v'' @ str_nat (version latest_version)),
                       model_metadata = registry_metadata latest_version\<rparr>))
              else (NoChange, g))))"

text \<open>
  The loop itself, over the environments that the successive ticks meet (the loop has no
  exit; a run of the process sees a finite prefix of it).
\<close>

fun check_for_new_model :: "mlflow_env list \<Rightarrow> globals \<Rightarrow> tick_outcome list \<times> globals" where
  "check_for_new_model [] g = ([], g)"
| "check_for_new_model (env # envs) g =
     (case check_for_new_model_tick env g of
        (out, g') \<Rightarrow>
          (case check_for_new_model envs g' of (outs, g'') \<Rightarrow> (out # outs, g'')))"

section \<open>Startup loading and manual reload\<close>

text \<open>
  \<open>load_local_model\<close>. The first component is the exception that leaves the function,
  if any (\<open>joblib.load\<close> is not guarded).
\<close>

definition load_local_model :: "local_file \<Rightarrow> globals \<Rightarrow> py_exception option \<times> globals" where
  "load_local_model f g =
     (case f of
        Pickled a \<Rightarrow>
          (None,
           \<lparr>model = Some a, model_version = Some ''Local File'',
            model_metadata = empty_metadata\<lparr>md_source := Some ''local_file''\<rparr>\<rparr>)
      | Unreadable e \<Rightarrow> (Some e, g)
      | NoFile \<Rightarrow> (None, g\<lparr>model := None\<rparr>))"

text \<open>
  \<open>load_model\<close>, the startup hook. \<open>model\<close> is assigned as soon as the registry load
  returns, before the metadata query; an exception in either falls back to the local file.
  The start of the polling thread at the end of the function changes no global and is
  left out.
\<close>

definition load_model :: "mlflow_env \<Rightarrow> globals \<Rightarrow> py_exception option \<times> globals" where
  "load_model env g =
     (if truthy (mlflow_tracking_uri env) \<and> truthy (mlflow_tracking_username env)
         \<and> truthy (mlflow_tracking_password env) then
        (case pyfunc_load_model env of
           Inl e \<Rightarrow> load_local_model (local_model_file env) g
         | Inr m \<Rightarrow>
             (case get_latest_versions env of
                Inl e \<Rightarrow> load_local_model (local_model_file env) (g\<lparr>model := Some m\<rparr>)
              | Inr [] \<Rightarrow> (None, g\<lparr>model := Some m, model_version := Some ''Unknown''\<rparr>)
              | Inr (latest # rest) \<Rightarrow>
                  (None,
                   \<lparr>model = Some m,
                    model_version = Some (''v'' @ str_nat (version latest)),
                    model_metadata = registry_metadata latest\<rparr>)))
      else load_local_model (local_model_file env) g)"

text \<open>\<open>GET /model/reload\<close>: runs \<open>load_model\<close> and reports the global \<open>model_version\<close>.\<close>

record reload_response =
  status :: string
  reloaded_version :: "string option"
  reload_timestamp :: string

definition reload_model ::
  "string \<Rightarrow> mlflow_env \<Rightarrow> globals \<Rightarrow> (http_error + reload_response) \<times> globals" where
  "reload_model now env g =
     (case load_model env g of
        (Some e, g') \<Rightarrow> (Inl (HTTPException 500 ''Internal Server Error''), g')
      | (None, g') \<Rightarrow>
          (Inr \<lparr>status = ''reloaded'', reloaded_version = model_version g',
                reload_timestamp = now\<rparr>, g'))"

section \<open>GET /model/compare\<close>

text \<open>\<open>run.data.metrics\<close>: a dict from metric names to floats.\<close>

type_synonym metrics = "string \<rightharpoonup> real"

text \<open>
  The two registry calls of the handler: \<open>client.search_model_versions("name='sales-forecaster'")\<close>
  (with the construction of the client) and \<open>mlflow.get_run(run_id)\<close>, reduced to the
  metrics of the run. Either may raise.
\<close>

record registry =
  search_model_versions :: "py_exception + registry_version list"
  get_run :: "string \<Rightarrow> py_exception + metrics"

text \<open>\<open>d.get(key, default)\<close>\<close>

definition dict_get :: "metrics \<Rightarrow> string \<Rightarrow> real \<Rightarrow> real" where
  "dict_get d k dflt = (case d k of None \<Rightarrow> dflt | Some v \<Rightarrow> v)"

text \<open>Float division raises on a zero divisor.\<close>

definition py_div :: "real \<Rightarrow> real \<Rightarrow> py_exception + real" where
  "py_div a b = (if b = 0 then Inl (PyException ''float division by zero'') else Inr (a / b))"

text \<open>Sequencing of steps that may raise: the first exception ends the \<open>try\<close> body.\<close>

definition then_exn :: "py_exception + 'a \<Rightarrow> ('a \<Rightarrow> py_exception + 'b) \<Rightarrow> py_exception + 'b" where
  "then_exn r f = (case r of Inl e \<Rightarrow> Inl e | Inr x \<Rightarrow> f x)"

text \<open>
  The three \<open>... if previous > 0 else 0\<close> expressions of the handler, each with the
  previous value first.
\<close>

definition mae_delta :: "real \<Rightarrow> real \<Rightarrow> py_exception + real" where
  "mae_delta previous_mae current_mae =
     (if previous_mae > 0 then
        then_exn (py_div (previous_mae - current_mae) previous_mae) (\<lambda>q. Inr (q * 100))
      else Inr 0)"

definition rmse_delta :: "real \<Rightarrow> real \<Rightarrow> py_exception + real" where
  "rmse_delta previous_rmse current_rmse =
     (if previous_rmse > 0 then
        then_exn (py_div (previous_rmse - current_rmse) previous_rmse) (\<lambda>q. Inr (q * 100))
      else Inr 0)"

definition r2_delta :: "real \<Rightarrow> real \<Rightarrow> py_exception + real" where
  "r2_delta previous_r2 current_r2 =
     (if previous_r2 > 0 then
        then_exn (py_div (current_r2 - previous_r2) previous_r2) (\<lambda>q. Inr (q * 100))
      else Inr 0)"

text \<open>\<open>"improved" if delta > 0 else "degraded" if delta < 0 else "unchanged"\<close>\<close>

definition verdict :: "real \<Rightarrow> string" where
  "verdict delta =
     (if delta > 0 then ''improved'' else if delta < 0 then ''degraded'' else ''unchanged'')"

text \<open>
  \<open>sorted(xs, key=k, reverse=True)\<close>: descending by key, and stable, so elements with
  equal keys keep the order they had in \<open>xs\<close>.
\<close>

definition sorted_reverse :: "('a \<Rightarrow> nat) \<Rightarrow> 'a list \<Rightarrow> 'a list" where
  "sorted_reverse k xs = rev (sort_key k (rev xs))"

text \<open>The dicts of the response. The nested \<open>"metrics"\<close> dict is flattened.\<close>

record version_summary =
  vs_version :: nat
  vs_run_id :: string
  vs_mae :: real
  vs_rmse :: real
  vs_r2_score :: real

record deltas_dict =
  mae_percent :: real
  rmse_percent :: real
  r2_percent :: real

record improvement_dict =
  mae_verdict :: string
  rmse_verdict :: string
  r2_verdict :: string

text \<open>The response: a key that the returned dict does not have is \<open>None\<close>.\<close>

record compare_response =
  has_comparison :: bool
  error_field :: "string option"
  message_field :: "string option"
  current_version_field :: "version_summary option"
  previous_version_field :: "version_summary option"
  deltas_field :: "deltas_dict option"
  improvement_field :: "improvement_dict option"

definition error_response :: "string \<Rightarrow> compare_response" where
  "error_response msg =
     \<lparr>has_comparison = False, error_field = Some msg, message_field = None,
      current_version_field = None, previous_version_field = None, deltas_field = None,
      improvement_field = None\<rparr>"

text \<open>
  \<open>{"version": v.version, "run_id": v.run_id, "metrics": {...}}\<close>, each metric read
  under its name with the \<open>test_\<close> name and then 0 as defaults.
\<close>

definition summary :: "registry_version \<Rightarrow> metrics \<Rightarrow> version_summary" where
  "summary v m =
     \<lparr>vs_version = version v, vs_run_id = run_id v,
      vs_mae = dict_get m ''mae'' (dict_get m ''test_mae'' 0),
      vs_rmse = dict_get m ''rmse'' (dict_get m ''test_rmse'' 0),
      vs_r2_score = dict_get m ''r2_score'' (dict_get m ''test_r2'' 0)\<rparr>"

text \<open>
  The branch \<open>if previous_version:\<close> once both runs are fetched. The verdicts are taken
  from the deltas as computed, the \<open>"deltas"\<close> dict holds \<open>round(delta, 2)\<close> of each.
\<close>

definition comparison_report ::
  "(real \<Rightarrow> real) \<Rightarrow> registry_version \<Rightarrow> metrics \<Rightarrow> registry_version \<Rightarrow> metrics \<Rightarrow>
     py_exception + compare_response" where
  "comparison_report round2 current_version current_metrics previous_version previous_metrics =
     (let cur = summary current_version current_metrics;
          prev = summary previous_version previous_metrics
      in then_exn (mae_delta (vs_mae prev) (vs_mae cur)) (\<lambda>mae_d.
         then_exn (rmse_delta (vs_rmse prev) (vs_rmse cur)) (\<lambda>rmse_d.
         then_exn (r2_delta (vs_r2_score prev) (vs_r2_score cur)) (\<lambda>r2_d.
           Inr \<lparr>has_comparison = True, error_field = None, message_field = None,
                current_version_field = Some cur, previous_version_field = Some prev,
                deltas_field =
                  Some \<lparr>mae_percent = round2 mae_d, rmse_percent = round2 rmse_d,
                        r2_percent = round2 r2_d\<rparr>,
                improvement_field =
                  Some \<lparr>mae_verdict = verdict mae_d, rmse_verdict = verdict rmse_d,
                        r2_verdict = verdict r2_d\<rparr>\<rparr>))))"

text \<open>The \<open>else\<close> branch: no version below the current one.\<close>

definition first_version_response :: "registry_version \<Rightarrow> metrics \<Rightarrow> compare_response" where
  "first_version_response current_version current_metrics =
     \<lparr>has_comparison = False, error_field = None,
      message_field = Some ''This is the first model version'',
      current_version_field = Some (summary current_version current_metrics),
      previous_version_field = None, deltas_field = None, improvement_field = None\<rparr>"

text \<open>
  The body of the \<open>try\<close>. \<open>find\<close> is the \<open>for v in sorted_versions: if ...: break\<close>
  loop: the first element below the current version, if any.
\<close>

definition compare_body ::
  "(real \<Rightarrow> real) \<Rightarrow> registry \<Rightarrow> py_exception + compare_response" where
  "compare_body round2 reg =
     then_exn (search_model_versions reg) (\<lambda>all_versions.
       if length all_versions < 1 then Inr (error_response ''No model versions found'')
       else
         (let sorted_versions = sorted_reverse version all_versions;
              prod_versions = filter (\<lambda>v. current_stage v = ''Production'') sorted_versions
          in case prod_versions of
               [] \<Rightarrow> Inr (error_response ''No Production model found'')
             | current_version # others \<Rightarrow>
                 then_exn (get_run reg (run_id current_version)) (\<lambda>current_metrics.
                   case find (\<lambda>v. version v < version current_version) sorted_versions of
                     Some previous_version \<Rightarrow>
                       then_exn (get_run reg (run_id previous_version)) (\<lambda>previous_metrics.
                         comparison_report round2 current_version current_metrics
                           previous_version previous_metrics)
                   | None \<Rightarrow>
                       Inr (first_version_response current_version current_metrics))))"

text \<open>
  The handler: 503 without a model, else the \<open>try\<close> body, with \<open>except Exception\<close>
  turning whatever was raised into an error dict. The handler assigns no global; the
  globals are returned as they were.
\<close>

definition compare_models ::
  "(real \<Rightarrow> real) \<Rightarrow> registry \<Rightarrow> globals \<Rightarrow>
     (http_error + compare_response) \<times> globals" where
  "compare_models round2 reg g =
     (case model g of
        None \<Rightarrow> (Inl (HTTPException 503 ''Model not loaded''), g)
      | Some m \<Rightarrow>
          (case compare_body round2 reg of
             Inl e \<Rightarrow> (Inr (error_response (str_exn e)), g)
           | Inr r \<Rightarrow> (Inr r, g)))"

section \<open>A prediction running beside the reload thread\<close>

text \<open>
  The handler runs on the event loop, \<open>check_for_new_model\<close> on a thread of its own, and
  the interpreter may switch between them between any two bytecodes. Each read and each
  assignment of a global is one step here. A prediction reads \<open>model\<close> for the
  \<open>is None\<close> test, reads it again for \<open>model.predict\<close>, and reads \<open>model_version\<close> when
  it builds the response (the read for the log line has no effect on the result). Calls
  only read the globals, so the order of steps among calls does not show in any result;
  what matters is where the steps of the reload thread fall.
\<close>

datatype predict_thread =
    Entry prediction_request
  | Checked prediction_request
  | Predicted real
  | Returned "http_error + prediction_response"

fun predict_step :: "string \<Rightarrow> globals \<Rightarrow> predict_thread \<Rightarrow> predict_thread" where
  "predict_step now g (Entry request) =
     (case model g of
        None \<Rightarrow> Returned (Inl (HTTPException 503 ''Model not loaded. Please contact support.''))
      | Some m \<Rightarrow> Checked request)"
| "predict_step now g (Checked request) =
     (case model g of
        None \<Rightarrow>
          Returned (Inl (HTTPException 500
            (''Prediction failed: 'NoneType' object has no attribute 'predict'' @ [CHR 0x27])))
      | Some m \<Rightarrow>
          (case m request of
             Inl e \<Rightarrow> Returned (Inl (HTTPException 500 (''Prediction failed: '' @ str_exn e)))
           | Inr p \<Rightarrow> Predicted p))"
| "predict_step now g (Predicted p) =
     (case model_version g of
        None \<Rightarrow>
          Returned (Inl (HTTPException 500
            ''Prediction failed: model_version: none is not an allowed value''))
      | Some v \<Rightarrow>
          Returned (Inr \<lparr>prediction = p, served_version = v,
                         confidence = confidence_of p, timestamp = now\<rparr>))"
| "predict_step now g (Returned r) = Returned r"

text \<open>The assignments of the reload thread at a swap, in program order.\<close>

datatype store = StoreModel artifact | StoreVersion string | StoreMetadata metadata

fun store_step :: "store \<Rightarrow> globals \<Rightarrow> globals" where
  "store_step (StoreModel m) g = g\<lparr>model := Some m\<rparr>"
| "store_step (StoreVersion v) g = g\<lparr>model_version := Some v\<rparr>"
| "store_step (StoreMetadata d) g = g\<lparr>model_metadata := d\<rparr>"

definition swap_stores :: "artifact \<Rightarrow> registry_version \<Rightarrow> store list" where
  "swap_stores new_model latest_version =
     [StoreModel new_model,
      StoreVersion (''v'' @ str_nat (version latest_version)),
      StoreMetadata (registry_metadata latest_version)]"

text \<open>
  A configuration: the globals, the prediction calls in flight, and the assignments the
  reload thread has still to do. A schedule names who moves next.
\<close>

record config =
  shared :: globals
  calls :: "predict_thread list"
  pending :: "store list"

datatype turn = Call nat | Background

fun step :: "string \<Rightarrow> turn \<Rightarrow> config \<Rightarrow> config" where
  "step now (Call i) c =
     (if i < length (calls c)
      then c\<lparr>calls := (calls c)[i := predict_step now (shared c) (calls c ! i)]\<rparr>
      else c)"
| "step now Background c =
     (case pending c of
        [] \<Rightarrow> c
      | s # ss \<Rightarrow> c\<lparr>shared := store_step s (shared c), pending := ss\<rparr>)"

fun run :: "string \<Rightarrow> turn list \<Rightarrow> config \<Rightarrow> config" where
  "run now [] c = c"
| "run now (t # ts) c = run now ts (step now t c)"

section \<open>Concrete requests, models and registry states\<close>

text \<open>The payloads of \<open>test_predict_endpoint\<close> and \<open>test_predict_out_of_range\<close>.\<close>

definition example_request :: prediction_request where
  "example_request =
     \<lparr>advertising_spend = 3000, promotions = 1, day_of_week = 0, month = 1, is_weekend = 0\<rparr>"

definition negative_spend_request :: prediction_request where
  "negative_spend_request =
     \<lparr>advertising_spend = - 1000, promotions = 1, day_of_week = 0, month = 1, is_weekend = 0\<rparr>"

text \<open>Two models that answer differently, so that a result tells which one computed it.\<close>

definition model_a :: artifact where
  "model_a = (\<lambda>request. Inr 150)"

definition model_b :: artifact where
  "model_b = (\<lambda>request. Inr 250)"

definition version_1 :: registry_version where
  "version_1 =
     \<lparr>version = 1, run_id = ''run-1'', current_stage = ''Archived'',
      creation_timestamp = 1700000001\<rparr>"

definition version_2 :: registry_version where
  "version_2 =
     \<lparr>version = 2, run_id = ''run-2'', current_stage = ''Production'',
      creation_timestamp = 1700000002\<rparr>"

definition version_3 :: registry_version where
  "version_3 =
     \<lparr>version = 3, run_id = ''run-3'', current_stage = ''Production'',
      creation_timestamp = 1700000003\<rparr>"

text \<open>The globals after model \<open>m\<close> was loaded as registry version \<open>v\<close>.\<close>

definition serving :: "artifact \<Rightarrow> registry_version \<Rightarrow> globals" where
  "serving m v =
     \<lparr>model = Some m, model_version = Some (''v'' @ str_nat (version v)),
      model_metadata = registry_metadata v\<rparr>"

text \<open>The globals after the local file gave model \<open>m\<close>.\<close>

definition serving_local :: "artifact \<Rightarrow> globals" where
  "serving_local m =
     \<lparr>model = Some m, model_version = Some ''Local File'',
      model_metadata = empty_metadata\<lparr>md_source := Some ''local_file''\<rparr>\<rparr>"

text \<open>A reachable registry whose Production version is \<open>v\<close>, with model \<open>m\<close>.\<close>

definition registry_env :: "registry_version \<Rightarrow> artifact \<Rightarrow> mlflow_env" where
  "registry_env v m =
     \<lparr>mlflow_tracking_uri = Some ''https://dagshub.com/user/repo.mlflow'',
      mlflow_tracking_username = Some ''user'', mlflow_tracking_password = Some ''token'',
      pyfunc_load_model = Inr m, get_latest_versions = Inr [v], local_model_file = NoFile\<rparr>"

text \<open>A configured registry that cannot be reached, beside local file \<open>f\<close>.\<close>

definition unreachable_env :: "local_file \<Rightarrow> mlflow_env" where
  "unreachable_env f =
     \<lparr>mlflow_tracking_uri = Some ''https://dagshub.com/user/repo.mlflow'',
      mlflow_tracking_username = Some ''user'', mlflow_tracking_password = Some ''token'',
      pyfunc_load_model = Inl (PyException ''connection refused''),
      get_latest_versions = Inl (PyException ''connection refused''),
      local_model_file = f\<rparr>"

definition run_metrics :: "string \<Rightarrow> py_exception + metrics" where
  "run_metrics rid =
     (if rid = ''run-1'' then Inr [''mae'' \<mapsto> 8]
      else if rid = ''run-2'' then Inr [''mae'' \<mapsto> 5]
      else if rid = ''run-3'' then Inr [''test_mae'' \<mapsto> 4]
      else Inl (PyException ''Run not found''))"

definition two_version_registry :: registry where
  "two_version_registry =
     \<lparr>search_model_versions = Inr [version_1, version_2], get_run = run_metrics\<rparr>"

definition gap_registry :: registry where
  "gap_registry =
     \<lparr>search_model_versions = Inr [version_1, version_3], get_run = run_metrics\<rparr>"

definition unreachable_registry :: registry where
  "unreachable_registry =
     \<lparr>search_model_versions = Inl (PyException ''connection refused''),
      get_run = (\<lambda>rid. Inl (PyException ''connection refused''))\<rparr>"

definition archived_only_registry :: registry where
  "archived_only_registry =
     \<lparr>search_model_versions = Inr [version_1], get_run = run_metrics\<rparr>"

text \<open>Versions whose run is gone from the tracking server.\<close>

definition orphan_version_1 :: registry_version where
  "orphan_version_1 =
     \<lparr>version = 1, run_id = ''run-deleted'', current_stage = ''Archived'',
      creation_timestamp = 1700000001\<rparr>"

definition orphan_version_4 :: registry_version where
  "orphan_version_4 =
     \<lparr>version = 4, run_id = ''run-deleted'', current_stage = ''Production'',
      creation_timestamp = 1700000004\<rparr>"

definition missing_current_registry :: registry where
  "missing_current_registry =
     \<lparr>search_model_versions = Inr [version_1, orphan_version_4], get_run = run_metrics\<rparr>"

definition missing_previous_registry :: registry where
  "missing_previous_registry =
     \<lparr>search_model_versions = Inr [orphan_version_1, version_2], get_run = run_metrics\<rparr>"

text \<open>
  The deltas of the registries above are 0, 37.5 and 50: floats with at most two
  decimals, which \<open>round(x, 2)\<close> returns as they are. The examples take the rounding at
  these values only.
\<close>

definition round2_unchanged :: "real \<Rightarrow> real" where
  "round2_unchanged x = x"

definition two_version_report :: compare_response where
  "two_version_report =
     \<lparr>has_comparison = True, error_field = None, message_field = None,
      current_version_field =
        Some \<lparr>vs_version = 2, vs_run_id = ''run-2'', vs_mae = 5, vs_rmse = 0, vs_r2_score = 0\<rparr>,
      previous_version_field =
        Some \<lparr>vs_version = 1, vs_run_id = ''run-1'', vs_mae = 8, vs_rmse = 0, vs_r2_score = 0\<rparr>,
      deltas_field = Some \<lparr>mae_percent = 75 / 2, rmse_percent = 0, r2_percent = 0\<rparr>,
      improvement_field =
        Some \<lparr>mae_verdict = ''improved'', rmse_verdict = ''unchanged'',
              r2_verdict = ''unchanged''\<rparr>\<rparr>"

definition gap_report :: compare_response where
  "gap_report =
     \<lparr>has_comparison = True, error_field = None, message_field = None,
      current_version_field =
        Some \<lparr>vs_version = 3, vs_run_id = ''run-3'', vs_mae = 4, vs_rmse = 0, vs_r2_score = 0\<rparr>,
      previous_version_field =
        Some \<lparr>vs_version = 1, vs_run_id = ''run-1'', vs_mae = 8, vs_rmse = 0, vs_r2_score = 0\<rparr>,
      deltas_field = Some \<lparr>mae_percent = 50, rmse_percent = 0, r2_percent = 0\<rparr>,
      improvement_field =
        Some \<lparr>mae_verdict = ''improved'', rmse_verdict = ''unchanged'',
              r2_verdict = ''unchanged''\<rparr>\<rparr>"

section \<open>Decimal text of ordinals\<close>

lemma str_nat_digit: "n < 10 \<Longrightarrow> str_nat n = [''0123456789'' ! n]"
  by (subst str_nat.simps) simp

lemma str_nat_not_Nil: "str_nat n \<noteq> []"
  by (subst str_nat.simps) simp

lemma digit_inj:
  assumes "a < 10" "b < 10" "''0123456789'' ! a = ''0123456789'' ! b"
  shows "a = b"
proof -
  have d: "distinct ''0123456789''" by simp
  have l: "length ''0123456789'' = 10" by simp
  from assms d l show ?thesis by (metis nth_eq_iff_index_eq)
qed

text \<open>Two ordinals with the same text are the same ordinal.\<close>

lemma str_nat_inj: "str_nat n = str_nat m \<Longrightarrow> n = m"
proof (induction n arbitrary: m rule: str_nat.induct)
  case (1 n)
  show ?case
  proof (cases "n < 10")
    case small_n: True
    show ?thesis
    proof (cases "m < 10")
      case True
      with small_n "1.prems" show ?thesis
        by (simp add: str_nat.simps[of n] str_nat.simps[of m] digit_inj)
    next
      case False
      with small_n "1.prems" str_nat_not_Nil[of "m div 10"] show ?thesis
        by (simp add: str_nat.simps[of n] str_nat.simps[of m])
    qed
  next
    case big_n: False
    show ?thesis
    proof (cases "m < 10")
      case True
      with big_n "1.prems" str_nat_not_Nil[of "n div 10"] show ?thesis
        by (simp add: str_nat.simps[of n] str_nat.simps[of m])
    next
      case False
      with big_n "1.prems" have
        eq: "str_nat (n div 10) = str_nat (m div 10)"
        and dg: "''0123456789'' ! (n mod 10) = ''0123456789'' ! (m mod 10)"
        by (simp_all add: str_nat.simps[of n] str_nat.simps[of m])
      from "1.IH"[OF big_n eq] have q: "n div 10 = m div 10" .
      have r: "n mod 10 = m mod 10" by (rule digit_inj[OF _ _ dg]) simp_all
      from q r show ?thesis by (metis div_mult_mod_eq)
    qed
  qed
qed

section \<open>Predictions: validation and confidence\<close>

text \<open>
  C6. A request with any field outside its declared range (\<open>advertising_spend\<close> outside
  [0, 10000], \<open>promotions\<close> outside {0, 1}, \<open>day_of_week\<close> outside 0..6, \<open>month\<close> outside
  1..12, \<open>is_weekend\<close> outside {0, 1}) is answered with status 422, whatever the globals
  hold, and \<open>model.predict\<close> is called on no input at all during the request: neither
  on the request as sent nor on one brought back into range.
\<close>

theorem out_of_range_request_rejected:
  "advertising_spend request < 0 \<or> 10000 < advertising_spend request \<or>
   promotions request \<notin> {0, 1} \<or> day_of_week request \<notin> {0..6} \<or>
   month request \<notin> {1..12} \<or> is_weekend request \<notin> {0, 1} \<Longrightarrow>
   fst (post_predict now g request) = Inl (HTTPException 422 ''Unprocessable Entity'') \<and>
   snd (post_predict now g request) = []"
  unfolding post_predict_def field_constraints_def by auto

theorem out_of_range_request_rejected_witness:
  "advertising_spend negative_spend_request < 0 \<and>
   post_predict ''2024-01-01T00:00:00'' (serving model_a version_1) negative_spend_request =
     (Inl (HTTPException 422 ''Unprocessable Entity''), [])"
  using out_of_range_request_rejected
    [of negative_spend_request "''2024-01-01T00:00:00''" "serving model_a version_1"]
  by (simp add: negative_spend_request_def prod_eq_iff)

text \<open>
  C7. Every prediction that is answered carries confidence 0.85 when the predicted value
  lies strictly between 80 and 200, and 0.70 otherwise (so also at 80 and at 200); no
  third value occurs.
\<close>

theorem confidence_two_buckets:
  "fst (post_predict now g request) = Inr r \<Longrightarrow>
   confidence r = (if 80 < prediction r \<and> prediction r < 200 then 0.85 else 0.70) \<and>
   (confidence r = 0.85 \<or> confidence r = 0.70)"
  unfolding post_predict_def predict_def confidence_of_def
  by (auto split: if_splits option.splits sum.splits)

theorem confidence_two_buckets_witness:
  "fst (post_predict ''2024-01-01T00:00:00'' (serving model_a version_1) example_request) =
     Inr \<lparr>prediction = 150, served_version = ''v1'', confidence = 0.85,
          timestamp = ''2024-01-01T00:00:00''\<rparr> \<and>
   confidence \<lparr>prediction = 150, served_version = ''v1'', confidence = 0.85,
          timestamp = ''2024-01-01T00:00:00''\<rparr> = 0.85"
  using confidence_two_buckets
    [of "''2024-01-01T00:00:00''" "serving model_a version_1" example_request]
  by (simp add: post_predict_def predict_def field_constraints_def example_request_def
      serving_def model_a_def version_1_def confidence_of_def str_nat_digit)

section \<open>The poll tick\<close>

text \<open>A tick that does not end in \<open>Reloaded\<close> leaves all three globals as they were.\<close>

lemma tick_no_reload_keeps_globals:
  "fst (check_for_new_model_tick env g) \<noteq> Reloaded \<Longrightarrow>
   snd (check_for_new_model_tick env g) = g"
  unfolding check_for_new_model_tick_def
  by (auto simp: Let_def split: sum.splits list.splits if_splits)

lemma tick_equal_version:
  assumes "md_version (model_metadata g) = Some n"
      and "get_latest_versions env = Inr (latest # rest)"
      and "version latest = n"
  shows "check_for_new_model_tick env g = (Skipped, g) \<or>
         check_for_new_model_tick env g = (NoChange, g)"
  using assms unfolding check_for_new_model_tick_def
  by (simp add: Let_def str_version_def)

lemma tick_reload_only_if_differs:
  assumes "md_version (model_metadata g) = Some n"
      and "get_latest_versions env = Inr (latest # rest)"
      and "fst (check_for_new_model_tick env g) = Reloaded"
  shows "version latest \<noteq> n"
  using assms tick_equal_version[OF assms(1,2)] by auto

lemma tick_differs_reloads:
  assumes "md_version (model_metadata g) = Some n"
      and "get_latest_versions env = Inr (latest # rest)"
      and "version latest \<noteq> n"
      and "\<not> not_registry_uri (mlflow_tracking_uri env)"
      and "pyfunc_load_model env = Inr m"
  shows "check_for_new_model_tick env g =
    (Reloaded, \<lparr>model = Some m, model_version = Some (''v'' @ str_nat (version latest)),
                 model_metadata = registry_metadata latest\<rparr>)"
  using assms str_nat_inj[of "version latest" n] unfolding check_for_new_model_tick_def
  by (auto simp add: Let_def str_version_def)

lemma repeated_equal_ticks:
  assumes "md_version (model_metadata g) = Some n"
      and "get_latest_versions env = Inr (latest # rest)"
      and "version latest = n"
  shows "snd (check_for_new_model (replicate k env) g) = g \<and>
         Reloaded \<notin> set (fst (check_for_new_model (replicate k env) g))"
proof (induction k)
  case 0
  then show ?case by simp
next
  case (Suc k)
  from tick_equal_version[OF assms] Suc show ?case
    by (auto split: prod.splits)
qed

text \<open>Without a \<open>"version"\<close> key in the metadata every tick is a \<open>continue\<close>.\<close>

lemma ticks_without_version_skip:
  "md_version (model_metadata g) = None \<Longrightarrow>
   check_for_new_model envs g = (replicate (length envs) Skipped, g)"
proof (induction envs)
  case Nil
  then show ?case by simp
next
  case (Cons env envs)
  then have "check_for_new_model_tick env g = (Skipped, g)"
    by (simp add: check_for_new_model_tick_def)
  with Cons show ?case by simp
qed

text \<open>
  C2, as the claim states it, fails: the tick reloads on any difference between the two
  ordinals. With version 3 served and version 2 in Production (the state after a
  rollback) the tick swaps to version 2.
\<close>

theorem lower_ordinal_triggers_swap:
  "md_version (model_metadata (serving model_a version_3)) = Some 3 \<and>
   get_latest_versions (registry_env version_2 model_b) = Inr [version_2] \<and>
   version version_2 < 3 \<and>
   check_for_new_model_tick (registry_env version_2 model_b) (serving model_a version_3) =
     (Reloaded,
      \<lparr>model = Some model_b, model_version = Some ''v2'',
       model_metadata = registry_metadata version_2\<rparr>)"
  by (simp add: check_for_new_model_tick_def serving_def registry_env_def
      registry_metadata_def version_2_def version_3_def not_registry_uri_def str_version_def
      str_nat_digit)

text \<open>
  C2, amended. On a tick that finds version \<open>n\<close> served and \<open>latest\<close> as the first
  Production version of the registry: a swap happens only if the ordinal of \<open>latest\<close>
  differs from \<open>n\<close>; if it differs (above or below) and the registry is configured and
  the load succeeds, the swap happens and the three globals are those of \<open>latest\<close>; if the
  two ordinals are equal, no swap happens on that tick nor on any number of repetitions
  of it.
\<close>

theorem swap_iff_ordinal_differs:
  assumes "md_version (model_metadata g) = Some n"
      and "get_latest_versions env = Inr (latest # rest)"
  shows "(fst (check_for_new_model_tick env g) = Reloaded \<longrightarrow> version latest \<noteq> n) \<and>
         (version latest \<noteq> n \<and> \<not> not_registry_uri (mlflow_tracking_uri env) \<and>
            pyfunc_load_model env = Inr m \<longrightarrow>
          check_for_new_model_tick env g =
            (Reloaded,
             \<lparr>model = Some m, model_version = Some (''v'' @ str_nat (version latest)),
              model_metadata = registry_metadata latest\<rparr>)) \<and>
         (version latest = n \<longrightarrow>
            snd (check_for_new_model (replicate k env) g) = g \<and>
            Reloaded \<notin> set (fst (check_for_new_model (replicate k env) g)))"
  using tick_reload_only_if_differs[OF assms] tick_differs_reloads[OF assms]
    repeated_equal_ticks[OF assms] by blast

theorem swap_iff_ordinal_differs_witness:
  "md_version (model_metadata (serving model_a version_3)) = Some 3 \<and>
   get_latest_versions (registry_env version_2 model_b) = Inr [version_2] \<and>
   check_for_new_model_tick (registry_env version_2 model_b) (serving model_a version_3) =
     (Reloaded, serving model_b version_2) \<and>
   md_version (model_metadata (serving model_a version_2)) = Some 2 \<and>
   snd (check_for_new_model (replicate 3 (registry_env version_2 model_b))
          (serving model_a version_2)) =
     serving model_a version_2"
  using
    swap_iff_ordinal_differs
      [of "serving model_a version_3" 3 "registry_env version_2 model_b" version_2 "[]" model_b 0]
    swap_iff_ordinal_differs
      [of "serving model_a version_2" 2 "registry_env version_2 model_b" version_2 "[]" model_b 3]
  by (simp add: serving_def registry_env_def registry_metadata_def version_2_def version_3_def
      not_registry_uri_def str_nat_digit)

section \<open>Startup without a reachable registry\<close>

text \<open>
  C8. With the registry configured but unreachable at startup (the model load or the
  version query raises) and a readable local file, \<open>load_model\<close> raises nothing and leaves
  the model of the file in the globals, with version \<open>Local File\<close> and source
  \<open>local_file\<close>; \<open>health_check\<close> then answers (200) with that version; and every later
  sequence of poll ticks, whatever the registry does by then, consists of skips only and
  leaves the globals as they are.
\<close>

theorem local_fallback_then_ticks_skip:
  assumes "truthy (mlflow_tracking_uri env)" "truthy (mlflow_tracking_username env)"
    "truthy (mlflow_tracking_password env)"
    and "(\<exists>e. pyfunc_load_model env = Inl e) \<or> (\<exists>e. get_latest_versions env = Inl e)"
    and "local_model_file env = Pickled a"
  shows "load_model env g = (None, serving_local a) \<and>
         md_source (model_metadata (serving_local a)) = Some ''local_file'' \<and>
         health_check (serving_local a) = Inr ''Local File'' \<and>
         (\<forall>envs. check_for_new_model envs (serving_local a) =
                   (replicate (length envs) Skipped, serving_local a))"
proof -
  have l: "load_model env g = (None, serving_local a)"
    using assms unfolding load_model_def load_local_model_def serving_local_def
    by (auto split: sum.splits list.splits)
  have v: "md_version (model_metadata (serving_local a)) = None"
    by (simp add: serving_local_def empty_metadata_def)
  have s: "md_source (model_metadata (serving_local a)) = Some ''local_file''"
    by (simp add: serving_local_def)
  have h: "health_check (serving_local a) = Inr ''Local File''"
    by (simp add: health_check_def serving_local_def)
  from l s h ticks_without_version_skip[OF v] show ?thesis by simp
qed

theorem local_fallback_then_ticks_skip_witness:
  "truthy (mlflow_tracking_uri (unreachable_env (Pickled model_a))) \<and>
   pyfunc_load_model (unreachable_env (Pickled model_a)) =
     Inl (PyException ''connection refused'') \<and>
   local_model_file (unreachable_env (Pickled model_a)) = Pickled model_a \<and>
   load_model (unreachable_env (Pickled model_a)) initial_globals =
     (None, serving_local model_a) \<and>
   health_check (serving_local model_a) = Inr ''Local File'' \<and>
   check_for_new_model [registry_env version_2 model_b, unreachable_env NoFile]
       (serving_local model_a) =
     ([Skipped, Skipped], serving_local model_a)"
proof -
  have t: "truthy (Some ''https://dagshub.com/user/repo.mlflow'')"
    "truthy (Some ''user'')" "truthy (Some ''token'')"
    by (simp_all add: truthy_def)
  from local_fallback_then_ticks_skip
    [of "unreachable_env (Pickled model_a)" model_a initial_globals]
  have f: "load_model (unreachable_env (Pickled model_a)) initial_globals =
        (None, serving_local model_a)"
    "health_check (serving_local model_a) = Inr ''Local File''"
    "\<forall>envs. check_for_new_model envs (serving_local model_a) =
        (replicate (length envs) Skipped, serving_local model_a)"
    by (simp_all add: unreachable_env_def t)
  from f(3) have
    "check_for_new_model [registry_env version_2 model_b, unreachable_env NoFile]
       (serving_local model_a) = ([Skipped, Skipped], serving_local model_a)"
    by simp
  with f(1,2) t show ?thesis by (simp add: unreachable_env_def)
qed

section \<open>Comparison of the Production version with its predecessor\<close>

lemma set_sorted_reverse: "set (sorted_reverse k xs) = set xs"
  by (simp add: sorted_reverse_def)

lemma sorted_reverse_descending: "sorted_wrt (\<lambda>a b. k b \<le> k a) (sorted_reverse k xs)"
proof -
  have "sorted (map k (sort_key k (rev xs)))" by (rule sorted_sort_key)
  then have "sorted_wrt (\<lambda>a b. k a \<le> k b) (sort_key k (rev xs))"
    by (simp add: sorted_map)
  then show ?thesis by (simp add: sorted_reverse_def sorted_wrt_rev)
qed

lemma first_match_is_greatest:
  fixes k :: "'a \<Rightarrow> nat"
  assumes "sorted_wrt (\<lambda>a b. k b \<le> k a) xs" and "filter P xs = c # rest"
  shows "c \<in> set xs \<and> P c \<and> (\<forall>v\<in>set xs. P v \<longrightarrow> k v \<le> k c)"
proof -
  from assms(1) have "sorted_wrt (\<lambda>a b. k b \<le> k a) (filter P xs)"
    by (rule sorted_wrt_filter)
  with assms(2) have below: "\<forall>v\<in>set rest. k v \<le> k c" by simp
  have mem: "set (c # rest) = {v \<in> set xs. P v}"
    using assms(2) by (metis set_filter)
  then have "c \<in> set xs" "P c" by auto
  moreover have "\<forall>v\<in>set xs. P v \<longrightarrow> k v \<le> k c"
  proof (intro ballI impI)
    fix v assume "v \<in> set xs" "P v"
    with mem have "v \<in> set (c # rest)" by simp
    with below show "k v \<le> k c" by auto
  qed
  ultimately show ?thesis by simp
qed

lemma find_as_filter: "find P xs = (case filter P xs of [] \<Rightarrow> None | x # rest \<Rightarrow> Some x)"
  by (induction xs) simp_all

lemma find_is_greatest:
  fixes k :: "'a \<Rightarrow> nat"
  assumes "sorted_wrt (\<lambda>a b. k b \<le> k a) xs" and "find P xs = Some y"
  shows "y \<in> set xs \<and> P y \<and> (\<forall>v\<in>set xs. P v \<longrightarrow> k v \<le> k y)"
proof -
  from assms(2) obtain rest where "filter P xs = y # rest"
    by (auto simp: find_as_filter split: list.splits)
  with assms(1) show ?thesis by (rule first_match_is_greatest)
qed

text \<open>Under its guard no delta expression divides by zero.\<close>

lemma mae_delta_value: "mae_delta p c = Inr (if 0 < p then (p - c) / p * 100 else 0)"
  by (simp add: mae_delta_def py_div_def then_exn_def)

lemma rmse_delta_value: "rmse_delta p c = Inr (if 0 < p then (p - c) / p * 100 else 0)"
  by (simp add: rmse_delta_def py_div_def then_exn_def)

lemma r2_delta_value: "r2_delta p c = Inr (if 0 < p then (c - p) / p * 100 else 0)"
  by (simp add: r2_delta_def py_div_def then_exn_def)

lemma comparison_report_value:
  "comparison_report round2 cv cm pv pm =
     Inr \<lparr>has_comparison = True, error_field = None, message_field = None,
          current_version_field = Some (summary cv cm),
          previous_version_field = Some (summary pv pm),
          deltas_field =
            Some \<lparr>mae_percent =
                    round2 (if 0 < vs_mae (summary pv pm)
                      then (vs_mae (summary pv pm) - vs_mae (summary cv cm)) / vs_mae (summary pv pm) * 100
                      else 0),
                  rmse_percent =
                    round2 (if 0 < vs_rmse (summary pv pm)
                      then (vs_rmse (summary pv pm) - vs_rmse (summary cv cm)) / vs_rmse (summary pv pm) * 100
                      else 0),
                  r2_percent =
                    round2 (if 0 < vs_r2_score (summary pv pm)
                      then (vs_r2_score (summary cv cm) - vs_r2_score (summary pv pm)) / vs_r2_score (summary pv pm) * 100
                      else 0)\<rparr>,
          improvement_field =
            Some \<lparr>mae_verdict =
                    verdict (if 0 < vs_mae (summary pv pm)
                      then (vs_mae (summary pv pm) - vs_mae (summary cv cm)) / vs_mae (summary pv pm) * 100
                      else 0),
                  rmse_verdict =
                    verdict (if 0 < vs_rmse (summary pv pm)
                      then (vs_rmse (summary pv pm) - vs_rmse (summary cv cm)) / vs_rmse (summary pv pm) * 100
                      else 0),
                  r2_verdict =
                    verdict (if 0 < vs_r2_score (summary pv pm)
                      then (vs_r2_score (summary cv cm) - vs_r2_score (summary pv pm)) / vs_r2_score (summary pv pm) * 100
                      else 0)\<rparr>\<rparr>"
  unfolding comparison_report_def Let_def mae_delta_value rmse_delta_value r2_delta_value
  by (simp add: then_exn_def)

lemma comparison_report_answers:
  "\<exists>r. comparison_report round2 cv cm pv pm = Inr r \<and> has_comparison r \<and>
        current_version_field r = Some (summary cv cm) \<and>
        previous_version_field r = Some (summary pv pm) \<and> deltas_field r \<noteq> None"
  by (simp add: comparison_report_value)

text \<open>
  What the body does once the version list is there: the head of the Production versions
  in descending order is the current one, and the rest of the body depends on the list
  only through that head.
\<close>

lemma compare_body_after_selection:
  assumes "search_model_versions reg = Inr vs"
      and "filter (\<lambda>v. current_stage v = ''Production'') (sorted_reverse version vs) = cur # rest"
  shows "compare_body round2 reg =
           then_exn (get_run reg (run_id cur)) (\<lambda>cm.
             case find (\<lambda>v. version v < version cur) (sorted_reverse version vs) of
               Some prev \<Rightarrow>
                 then_exn (get_run reg (run_id prev)) (\<lambda>pm. comparison_report round2 cur cm prev pm)
             | None \<Rightarrow> Inr (first_version_response cur cm))"
proof -
  from assms(2) have "sorted_reverse version vs \<noteq> []" by auto
  then have "vs \<noteq> []" by (auto simp: sorted_reverse_def)
  then have ne: "\<not> length vs < 1" by (cases vs) auto
  show ?thesis
    unfolding compare_body_def using assms ne by (simp add: then_exn_def Let_def)
qed

lemma compare_body_selection:
  assumes s: "search_model_versions reg = Inr vs"
      and p: "\<exists>v\<in>set vs. current_stage v = ''Production''"
  shows "\<exists>cur. cur \<in> set vs \<and> current_stage cur = ''Production'' \<and>
           (\<forall>v\<in>set vs. current_stage v = ''Production'' \<longrightarrow> version v \<le> version cur) \<and>
           compare_body round2 reg =
             then_exn (get_run reg (run_id cur)) (\<lambda>cm.
               case find (\<lambda>v. version v < version cur) (sorted_reverse version vs) of
                 Some prev \<Rightarrow>
                   then_exn (get_run reg (run_id prev)) (\<lambda>pm. comparison_report round2 cur cm prev pm)
               | None \<Rightarrow> Inr (first_version_response cur cm))"
proof -
  let ?sv = "sorted_reverse version vs"
  let ?P = "\<lambda>v. current_stage v = ''Production''"
  from p have "filter ?P ?sv \<noteq> []"
    by (simp add: filter_empty_conv set_sorted_reverse)
  then obtain cur rest where f: "filter ?P ?sv = cur # rest"
    by (cases "filter ?P ?sv") auto
  from first_match_is_greatest[OF sorted_reverse_descending f]
  have c: "cur \<in> set vs" "?P cur" "\<forall>v\<in>set vs. ?P v \<longrightarrow> version v \<le> version cur"
    by (simp_all add: set_sorted_reverse)
  from compare_body_after_selection[OF s f] c show ?thesis by blast
qed


text \<open>The registries of the examples, evaluated.\<close>

lemma sorted_two: "sorted_reverse version [version_1, version_2] = [version_2, version_1]"
  by (simp add: sorted_reverse_def version_1_def version_2_def)

lemma compare_two_versions:
  "compare_body round2_unchanged two_version_registry = Inr two_version_report"
proof -
  have s: "summary version_2 [''mae'' \<mapsto> 5] =
      \<lparr>vs_version = 2, vs_run_id = ''run-2'', vs_mae = 5, vs_rmse = 0, vs_r2_score = 0\<rparr>"
    by (simp add: summary_def dict_get_def version_2_def)
  have t: "summary version_1 [''mae'' \<mapsto> 8] =
      \<lparr>vs_version = 1, vs_run_id = ''run-1'', vs_mae = 8, vs_rmse = 0, vs_r2_score = 0\<rparr>"
    by (simp add: summary_def dict_get_def version_1_def)
  have b: "compare_body round2_unchanged two_version_registry =
      comparison_report round2_unchanged version_2 [''mae'' \<mapsto> 5] version_1 [''mae'' \<mapsto> 8]"
    unfolding compare_body_def two_version_registry_def
    by (simp add: sorted_two then_exn_def)
       (simp add: version_1_def version_2_def run_metrics_def then_exn_def)
  show ?thesis unfolding b comparison_report_value s t
    by (simp add: round2_unchanged_def verdict_def two_version_report_def)
qed

lemma sorted_gap: "sorted_reverse version [version_1, version_3] = [version_3, version_1]"
  by (simp add: sorted_reverse_def version_1_def version_3_def)

lemma compare_gap:
  "compare_body round2_unchanged gap_registry = Inr gap_report"
proof -
  have s: "summary version_3 [''test_mae'' \<mapsto> 4] =
      \<lparr>vs_version = 3, vs_run_id = ''run-3'', vs_mae = 4, vs_rmse = 0, vs_r2_score = 0\<rparr>"
    by (simp add: summary_def dict_get_def version_3_def)
  have t: "summary version_1 [''mae'' \<mapsto> 8] =
      \<lparr>vs_version = 1, vs_run_id = ''run-1'', vs_mae = 8, vs_rmse = 0, vs_r2_score = 0\<rparr>"
    by (simp add: summary_def dict_get_def version_1_def)
  have b: "compare_body round2_unchanged gap_registry =
      comparison_report round2_unchanged version_3 [''test_mae'' \<mapsto> 4] version_1 [''mae'' \<mapsto> 8]"
    unfolding compare_body_def gap_registry_def
    by (simp add: sorted_gap then_exn_def)
       (simp add: version_1_def version_3_def run_metrics_def then_exn_def)
  show ?thesis unfolding b comparison_report_value s t
    by (simp add: round2_unchanged_def verdict_def gap_report_def)
qed

lemma sorted_missing_current:
  "sorted_reverse version [version_1, orphan_version_4] = [orphan_version_4, version_1]"
  by (simp add: sorted_reverse_def version_1_def orphan_version_4_def)

lemma sorted_missing_previous:
  "sorted_reverse version [orphan_version_1, version_2] = [version_2, orphan_version_1]"
  by (simp add: sorted_reverse_def orphan_version_1_def version_2_def)

text \<open>
  C5. When the registry lists a Production-tagged version (and the runs of its versions can
  be fetched), the response describes as current a Production-tagged version, the one of
  highest ordinal among those so tagged, and either (a) there is a version of lower
  ordinal, the response has \<open>has_comparison\<close> true and describes as previous a version
  whose ordinal is the highest below the current one, whatever gap lies between, or (b)
  no version has a lower ordinal, \<open>has_comparison\<close> is false, the message says this is
  the first model version, and the response has no previous version, no deltas and no
  verdicts.
\<close>

theorem compare_selects_current_and_previous:
  assumes m: "model g = Some m"
      and s: "search_model_versions reg = Inr vs"
      and p: "\<exists>v\<in>set vs. current_stage v = ''Production''"
      and runs: "\<forall>v\<in>set vs. \<exists>ms. get_run reg (run_id v) = Inr ms"
  shows "\<exists>cur cm r. fst (compare_models round2 reg g) = Inr r \<and>
           cur \<in> set vs \<and> current_stage cur = ''Production'' \<and>
           (\<forall>v\<in>set vs. current_stage v = ''Production'' \<longrightarrow> version v \<le> version cur) \<and>
           get_run reg (run_id cur) = Inr cm \<and>
           current_version_field r = Some (summary cur cm) \<and>
           ((\<exists>prev pm. prev \<in> set vs \<and> version prev < version cur \<and>
                (\<forall>v\<in>set vs. version v < version cur \<longrightarrow> version v \<le> version prev) \<and>
                get_run reg (run_id prev) = Inr pm \<and>
                has_comparison r \<and> previous_version_field r = Some (summary prev pm) \<and>
                deltas_field r \<noteq> None)
            \<or> ((\<forall>v\<in>set vs. \<not> version v < version cur) \<and>
                \<not> has_comparison r \<and>
                message_field r = Some ''This is the first model version'' \<and>
                error_field r = None \<and>
                previous_version_field r = None \<and> deltas_field r = None \<and>
                improvement_field r = None))"
proof -
  let ?sv = "sorted_reverse version vs"
  from compare_body_selection[OF s p, of round2] obtain cur where
    c: "cur \<in> set vs" "current_stage cur = ''Production''"
       "\<forall>v\<in>set vs. current_stage v = ''Production'' \<longrightarrow> version v \<le> version cur"
    and b: "compare_body round2 reg =
             then_exn (get_run reg (run_id cur)) (\<lambda>cm.
               case find (\<lambda>v. version v < version cur) ?sv of
                 Some prev \<Rightarrow>
                   then_exn (get_run reg (run_id prev)) (\<lambda>pm. comparison_report round2 cur cm prev pm)
               | None \<Rightarrow> Inr (first_version_response cur cm))"
    by blast
  from runs c(1) obtain cm where cm: "get_run reg (run_id cur) = Inr cm" by blast
  show ?thesis
  proof (cases "find (\<lambda>v. version v < version cur) ?sv")
    case None
    then have none: "\<forall>v\<in>set vs. \<not> version v < version cur"
      by (simp add: find_None_iff set_sorted_reverse)
    from b cm None have "compare_body round2 reg = Inr (first_version_response cur cm)"
      by (simp add: then_exn_def)
    with m have "fst (compare_models round2 reg g) = Inr (first_version_response cur cm)"
      by (simp add: compare_models_def)
    with c cm none show ?thesis
      by (auto simp: first_version_response_def)
  next
    case (Some prev)
    from find_is_greatest[OF sorted_reverse_descending Some]
    have pr: "prev \<in> set vs" "version prev < version cur"
      "\<forall>v\<in>set vs. version v < version cur \<longrightarrow> version v \<le> version prev"
      by (simp_all add: set_sorted_reverse)
    from runs pr(1) obtain pm where pm: "get_run reg (run_id prev) = Inr pm" by blast
    from b cm Some pm have "compare_body round2 reg = comparison_report round2 cur cm prev pm"
      by (simp add: then_exn_def)
    with comparison_report_answers[of round2 cur cm prev pm]
    obtain r where r: "compare_body round2 reg = Inr r" "has_comparison r"
      "current_version_field r = Some (summary cur cm)"
      "previous_version_field r = Some (summary prev pm)" "deltas_field r \<noteq> None"
      by auto
    with m have "fst (compare_models round2 reg g) = Inr r"
      by (simp add: compare_models_def)
    with c cm pr pm r show ?thesis by blast
  qed
qed

theorem compare_selects_current_and_previous_witness:
  "model (serving model_a version_3) = Some model_a \<and>
   search_model_versions gap_registry = Inr [version_1, version_3] \<and>
   current_stage version_3 = ''Production'' \<and>
   get_run gap_registry (run_id version_1) = Inr [''mae'' \<mapsto> 8] \<and>
   get_run gap_registry (run_id version_3) = Inr [''test_mae'' \<mapsto> 4] \<and>
   fst (compare_models round2_unchanged gap_registry (serving model_a version_3)) =
     Inr gap_report \<and>
   map_option vs_version (current_version_field gap_report) = Some 3 \<and>
   map_option vs_version (previous_version_field gap_report) = Some 1"
  using compare_selects_current_and_previous
    [of "serving model_a version_3" model_a gap_registry "[version_1, version_3]"
        round2_unchanged]
    compare_gap
  by (simp add: compare_models_def serving_def gap_report_def gap_registry_def
      version_1_def version_3_def run_metrics_def)




text \<open>
  C9. The compare operation assigns no global and only reads the registry: a call
  returns the globals it was given, so a second call on the same registry returns the
  same response (the response holds no timestamp).
\<close>

theorem compare_twice_same_report:
  "compare_models round2 reg g = (r, g') \<Longrightarrow>
   g' = g \<and> compare_models round2 reg g' = (r, g')"
  unfolding compare_models_def by (auto split: option.splits sum.splits)

theorem compare_twice_same_report_witness:
  "compare_models round2_unchanged two_version_registry (serving model_a version_2) =
     (Inr two_version_report, serving model_a version_2) \<and>
   compare_models round2_unchanged two_version_registry
     (snd (compare_models round2_unchanged two_version_registry (serving model_a version_2))) =
     (Inr two_version_report, serving model_a version_2)"
  using compare_twice_same_report
    [of round2_unchanged two_version_registry "serving model_a version_2"
        "Inr two_version_report" "serving model_a version_2"] compare_two_versions
  by (simp add: compare_models_def serving_def)

text \<open>
  C10. With a model loaded, the compare operation always returns a normal response, never
  an error status, and a response without a comparison carries an error or a message. In
  particular each failure while consulting the registry gives a response with
  \<open>has_comparison\<close> false and an \<open>error\<close> text: an exception of the version search; an
  empty version list; a list without a Production version; an exception when the run of
  the current version (the first Production version in descending order) is fetched;
  and, after that run was fetched, an exception when the run of the previous version (the
  first version below the current one in descending order) is fetched.
\<close>

theorem compare_never_raises:
  assumes "model g = Some m"
  shows "\<exists>r. compare_models round2 reg g = (Inr r, g) \<and>
           (\<not> has_comparison r \<longrightarrow> error_field r \<noteq> None \<or> message_field r \<noteq> None) \<and>
           (\<forall>e. search_model_versions reg = Inl e \<longrightarrow> r = error_response (str_exn e)) \<and>
           (search_model_versions reg = Inr [] \<longrightarrow>
              r = error_response ''No model versions found'') \<and>
           (\<forall>vs. search_model_versions reg = Inr vs \<and> vs \<noteq> [] \<and>
                 (\<forall>v\<in>set vs. current_stage v \<noteq> ''Production'') \<longrightarrow>
              r = error_response ''No Production model found'') \<and>
           (\<forall>vs cur rest e. search_model_versions reg = Inr vs \<and>
                 filter (\<lambda>v. current_stage v = ''Production'') (sorted_reverse version vs) =
                   cur # rest \<and>
                 get_run reg (run_id cur) = Inl e \<longrightarrow>
              r = error_response (str_exn e)) \<and>
           (\<forall>vs cur rest cm prev e. search_model_versions reg = Inr vs \<and>
                 filter (\<lambda>v. current_stage v = ''Production'') (sorted_reverse version vs) =
                   cur # rest \<and>
                 get_run reg (run_id cur) = Inr cm \<and>
                 find (\<lambda>v. version v < version cur) (sorted_reverse version vs) = Some prev \<and>
                 get_run reg (run_id prev) = Inl e \<longrightarrow>
              r = error_response (str_exn e))"
proof -
  define r where
    "r = (case compare_body round2 reg of
            Inl e \<Rightarrow> error_response (str_exn e) | Inr x \<Rightarrow> x)"
  note body = r_def
  have r: "compare_models round2 reg g = (Inr r, g)"
    using assms by (simp add: compare_models_def r_def split: sum.splits)
  have a: "\<not> has_comparison r \<longrightarrow> error_field r \<noteq> None \<or> message_field r \<noteq> None"
    unfolding body compare_body_def then_exn_def Let_def
    by (auto simp: error_response_def first_version_response_def comparison_report_value
        split: sum.splits list.splits option.splits)
  have b: "\<forall>e. search_model_versions reg = Inl e \<longrightarrow> r = error_response (str_exn e)"
    unfolding body compare_body_def then_exn_def by simp
  have c: "search_model_versions reg = Inr [] \<longrightarrow> r = error_response ''No model versions found''"
    unfolding body compare_body_def then_exn_def by simp
  have d: "\<forall>vs. search_model_versions reg = Inr vs \<and> vs \<noteq> [] \<and>
                 (\<forall>v\<in>set vs. current_stage v \<noteq> ''Production'') \<longrightarrow>
              r = error_response ''No Production model found''"
  proof (intro allI impI)
    fix vs assume h: "search_model_versions reg = Inr vs \<and> vs \<noteq> [] \<and>
                 (\<forall>v\<in>set vs. current_stage v \<noteq> ''Production'')"
    then have "filter (\<lambda>v. current_stage v = ''Production'') (sorted_reverse version vs) = []"
      by (simp add: filter_empty_conv set_sorted_reverse)
    with h show "r = error_response ''No Production model found''"
      unfolding body compare_body_def then_exn_def by (simp add: Let_def)
  qed
  have e: "\<forall>vs cur rest e. search_model_versions reg = Inr vs \<and>
                 filter (\<lambda>v. current_stage v = ''Production'') (sorted_reverse version vs) =
                   cur # rest \<and>
                 get_run reg (run_id cur) = Inl e \<longrightarrow>
              r = error_response (str_exn e)"
  proof (intro allI impI)
    fix vs cur rest e
    assume h: "search_model_versions reg = Inr vs \<and>
                 filter (\<lambda>v. current_stage v = ''Production'') (sorted_reverse version vs) =
                   cur # rest \<and>
                 get_run reg (run_id cur) = Inl e"
    then have s: "search_model_versions reg = Inr vs"
      and f: "filter (\<lambda>v. current_stage v = ''Production'') (sorted_reverse version vs) =
                cur # rest"
      and x: "get_run reg (run_id cur) = Inl e" by simp_all
    from compare_body_after_selection[OF s f, of round2] x
    show "r = error_response (str_exn e)"
      unfolding body by (simp add: then_exn_def)
  qed
  have f: "\<forall>vs cur rest cm prev e. search_model_versions reg = Inr vs \<and>
                 filter (\<lambda>v. current_stage v = ''Production'') (sorted_reverse version vs) =
                   cur # rest \<and>
                 get_run reg (run_id cur) = Inr cm \<and>
                 find (\<lambda>v. version v < version cur) (sorted_reverse version vs) = Some prev \<and>
                 get_run reg (run_id prev) = Inl e \<longrightarrow>
              r = error_response (str_exn e)"
  proof (intro allI impI)
    fix vs cur rest cm prev e
    assume h: "search_model_versions reg = Inr vs \<and>
                 filter (\<lambda>v. current_stage v = ''Production'') (sorted_reverse version vs) =
                   cur # rest \<and>
                 get_run reg (run_id cur) = Inr cm \<and>
                 find (\<lambda>v. version v < version cur) (sorted_reverse version vs) = Some prev \<and>
                 get_run reg (run_id prev) = Inl e"
    then have s: "search_model_versions reg = Inr vs"
      and f: "filter (\<lambda>v. current_stage v = ''Production'') (sorted_reverse version vs) =
                cur # rest"
      and x: "get_run reg (run_id cur) = Inr cm"
        "find (\<lambda>v. version v < version cur) (sorted_reverse version vs) = Some prev"
        "get_run reg (run_id prev) = Inl e" by simp_all
    from compare_body_after_selection[OF s f, of round2] x
    show "r = error_response (str_exn e)"
      unfolding body by (simp add: then_exn_def)
  qed
  from r a b c d e f show ?thesis by blast
qed

theorem compare_never_raises_witness:
  "model (serving model_a version_2) = Some model_a \<and>
   search_model_versions unreachable_registry = Inl (PyException ''connection refused'') \<and>
   compare_models round2_unchanged unreachable_registry (serving model_a version_2) =
     (Inr (error_response ''connection refused''), serving model_a version_2) \<and>
   search_model_versions archived_only_registry = Inr [version_1] \<and>
   current_stage version_1 \<noteq> ''Production'' \<and>
   compare_models round2_unchanged archived_only_registry (serving model_a version_2) =
     (Inr (error_response ''No Production model found''), serving model_a version_2) \<and>
   search_model_versions missing_current_registry = Inr [version_1, orphan_version_4] \<and>
   filter (\<lambda>v. current_stage v = ''Production'')
     (sorted_reverse version [version_1, orphan_version_4]) = [orphan_version_4] \<and>
   get_run missing_current_registry (run_id orphan_version_4) =
     Inl (PyException ''Run not found'') \<and>
   compare_models round2_unchanged missing_current_registry (serving model_a version_2) =
     (Inr (error_response ''Run not found''), serving model_a version_2) \<and>
   search_model_versions missing_previous_registry = Inr [orphan_version_1, version_2] \<and>
   filter (\<lambda>v. current_stage v = ''Production'')
     (sorted_reverse version [orphan_version_1, version_2]) = [version_2] \<and>
   get_run missing_previous_registry (run_id version_2) = Inr [''mae'' \<mapsto> 5] \<and>
   find (\<lambda>v. version v < version version_2)
     (sorted_reverse version [orphan_version_1, version_2]) = Some orphan_version_1 \<and>
   get_run missing_previous_registry (run_id orphan_version_1) =
     Inl (PyException ''Run not found'') \<and>
   compare_models round2_unchanged missing_previous_registry (serving model_a version_2) =
     (Inr (error_response ''Run not found''), serving model_a version_2) \<and>
   \<not> has_comparison (error_response ''Run not found'') \<and>
   error_field (error_response ''Run not found'') = Some ''Run not found''"
proof -
  have g: "model (serving model_a version_2) = Some model_a"
    by (simp add: serving_def)
  have u: "search_model_versions unreachable_registry = Inl (PyException ''connection refused'')"
    by (simp add: unreachable_registry_def)
  have a: "search_model_versions archived_only_registry = Inr [version_1]"
    "current_stage version_1 \<noteq> ''Production''"
    by (simp_all add: archived_only_registry_def version_1_def)
  have c: "search_model_versions missing_current_registry = Inr [version_1, orphan_version_4]"
    "filter (\<lambda>v. current_stage v = ''Production'')
       (sorted_reverse version [version_1, orphan_version_4]) = [orphan_version_4]"
    "get_run missing_current_registry (run_id orphan_version_4) =
       Inl (PyException ''Run not found'')"
    by (simp_all add: missing_current_registry_def sorted_missing_current)
       (simp_all add: version_1_def orphan_version_4_def run_metrics_def)
  have p: "search_model_versions missing_previous_registry = Inr [orphan_version_1, version_2]"
    "filter (\<lambda>v. current_stage v = ''Production'')
       (sorted_reverse version [orphan_version_1, version_2]) = [version_2]"
    "get_run missing_previous_registry (run_id version_2) = Inr [''mae'' \<mapsto> 5]"
    "find (\<lambda>v. version v < version version_2)
       (sorted_reverse version [orphan_version_1, version_2]) = Some orphan_version_1"
    "get_run missing_previous_registry (run_id orphan_version_1) =
       Inl (PyException ''Run not found'')"
    by (simp_all add: missing_previous_registry_def sorted_missing_previous)
       (simp_all add: orphan_version_1_def version_2_def run_metrics_def)
  from compare_never_raises[OF g, of round2_unchanged unreachable_registry] u
  have r1: "compare_models round2_unchanged unreachable_registry (serving model_a version_2) =
     (Inr (error_response ''connection refused''), serving model_a version_2)"
    by auto
  from compare_never_raises[OF g, of round2_unchanged archived_only_registry] a
  have r2: "compare_models round2_unchanged archived_only_registry (serving model_a version_2) =
     (Inr (error_response ''No Production model found''), serving model_a version_2)"
    by auto
  from compare_never_raises[OF g, of round2_unchanged missing_current_registry] c
  have r3: "compare_models round2_unchanged missing_current_registry (serving model_a version_2) =
     (Inr (error_response ''Run not found''), serving model_a version_2)"
    by fastforce
  from compare_never_raises[OF g, of round2_unchanged missing_previous_registry] p
  have r4: "compare_models round2_unchanged missing_previous_registry (serving model_a version_2) =
     (Inr (error_response ''Run not found''), serving model_a version_2)"
    by fastforce
  have e: "\<not> has_comparison (error_response ''Run not found'')"
    "error_field (error_response ''Run not found'') = Some ''Run not found''"
    by (simp_all add: error_response_def)
  from g u a c p r1 r2 r3 r4 e show ?thesis by simp
qed

section \<open>Reads of the globals against the writes of a reload\<close>

text \<open>
  A call that takes its three steps with no step of the reload thread in between gives
  what \<open>predict\<close> gives, and the three assignments of a swap, once all done, leave the
  globals that the tick leaves.
\<close>

lemma uninterrupted_call_is_predict:
  "calls (run now [Call 0, Call 0, Call 0] \<lparr>shared = g, calls = [Entry request], pending = p\<rparr>) =
     [Returned (fst (predict now g request))]"
  by (auto simp: predict_def split: option.splits sum.splits)

lemma swap_stores_is_tick_swap:
  "fold store_step (swap_stores m latest) g =
     \<lparr>model = Some m, model_version = Some (''v'' @ str_nat (version latest)),
      model_metadata = registry_metadata latest\<rparr>"
  by (simp add: swap_stores_def)

text \<open>
  C1 asks that the version reported by a prediction is the version of the model that
  computed its value, under every interleaving with swaps. The handler reads \<open>model\<close>
  and \<open>model_version\<close> at two different moments, and a swap may fall between them: with
  \<open>model_a\<close> served as v1 and a swap to \<open>model_b\<close> as v2 scheduled after the call to
  \<open>model.predict\<close>, the response pairs the value 150 of \<open>model_a\<close> (\<open>model_b\<close> answers
  250) with the version v2.
\<close>

theorem torn_read_under_swap:
  "run ''2024-01-01T00:00:00'' [Call 0, Call 0, Background, Background, Background, Call 0]
     \<lparr>shared = serving model_a version_1, calls = [Entry example_request],
      pending = swap_stores model_b version_2\<rparr> =
   \<lparr>shared = serving model_b version_2,
    calls = [Returned (Inr \<lparr>prediction = 150, served_version = ''v2'', confidence = 0.85,
                             timestamp = ''2024-01-01T00:00:00''\<rparr>)],
    pending = []\<rparr> \<and>
   model_a example_request = Inr 150 \<and> model_b example_request = Inr 250 \<and>
   model_version (serving model_a version_1) = Some ''v1'' \<and>
   model_version (serving model_b version_2) = Some ''v2''"
  by (simp add: serving_def swap_stores_def model_a_def model_b_def version_1_def version_2_def
      str_nat_digit confidence_of_def)

section \<open>A manual reload that fails\<close>

text \<open>
  C3 asks that a reload attempt that fails, from the poll loop or from the reload
  endpoint, leaves the served model in place. The endpoint runs \<open>load_model\<close>, the startup
  hook, whose fallback \<open>load_local_model\<close> sets \<open>model\<close> to \<open>None\<close> when there is no
  local file: with version 3 served, the registry unreachable and no local file, the
  endpoint answers "reloaded" with version v3, the model is gone and \<open>health_check\<close>
  answers 503; a poll tick in the same situation keeps the model.
\<close>

theorem failed_manual_reload_empties_slot:
  "model (serving model_a version_3) = Some model_a \<and>
   pyfunc_load_model (unreachable_env NoFile) = Inl (PyException ''connection refused'') \<and>
   reload_model ''2024-01-01T00:00:00'' (unreachable_env NoFile) (serving model_a version_3) =
     (Inr \<lparr>status = ''reloaded'', reloaded_version = Some ''v3'',
           reload_timestamp = ''2024-01-01T00:00:00''\<rparr>,
      (serving model_a version_3)\<lparr>model := None\<rparr>) \<and>
   health_check ((serving model_a version_3)\<lparr>model := None\<rparr>) =
     Inl (HTTPException 503 ''Service unavailable: Model not loaded'') \<and>
   check_for_new_model_tick (unreachable_env NoFile) (serving model_a version_3) =
     (CheckFailed (PyException ''connection refused''), serving model_a version_3)"
  by (simp add: reload_model_def load_model_def load_local_model_def unreachable_env_def
      truthy_def serving_def health_check_def version_3_def str_nat_digit
      check_for_new_model_tick_def not_registry_uri_def registry_metadata_def)

end
